theory Spec2Isabelle
  imports Complex_Main "HOL-Library.Word"
begin

section \<open>Palm detection service: data model\<close>

text \<open>
  The service in \<^verbatim>\<open>src/main.py\<close> reads text frames from a websocket, decodes each
  into an image, asks MediaPipe Hands for landmarks, classifies the first hand and
  answers with one of three tokens. The libraries it calls (base64, PIL, MediaPipe and
  the websocket transport) are not part of the repository: they are parameters of the
  model, collected in the record \<open>env\<close>. Every exception is a value of type \<open>error\<close>;
  a call that may raise returns \<open>error + 'a\<close> with \<open>Inl\<close> the exception.
\<close>

datatype error =
    IndexError        \<comment> \<open>a Python list or repeated field indexed out of range\<close>
  | Cv2Error          \<comment> \<open>\<^verbatim>\<open>cv2.error\<close> raised by \<^verbatim>\<open>cvtColor\<close>\<close>
  | BinasciiError     \<comment> \<open>raised by \<^verbatim>\<open>base64.b64decode\<close>\<close>
  | ImageError        \<comment> \<open>raised by \<^verbatim>\<open>Image.open\<close> or \<^verbatim>\<open>np.array\<close>\<close>
  | EstimatorError    \<comment> \<open>raised by \<^verbatim>\<open>hands.process\<close>\<close>
  | TransportError    \<comment> \<open>raised by \<^verbatim>\<open>receive_text\<close> or \<^verbatim>\<open>send_text\<close>\<close>

text \<open>
  These are exceptions derived from Python's \<^verbatim>\<open>Exception\<close>, the ones the two
  \<^verbatim>\<open>except Exception\<close> clauses of the source catch.
\<close>

type_synonym byte = "8 word"

text \<open>
  A numpy array of shape (height, width, channels): rows of pixels, a pixel being the
  list of its channel values. A two-dimensional array (a greyscale image) is the case of
  one channel per pixel.
\<close>

type_synonym pixel = "byte list"
type_synonym ndarray = "pixel list list"

text \<open>
  A landmark of MediaPipe: three floating-point coordinates. The code only compares
  coordinates with \<^verbatim>\<open><\<close>; on finite floats that comparison is the comparison of the
  real numbers they denote, so a coordinate is a \<open>real\<close>. The fields are \<^verbatim>\<open>x\<close>, \<^verbatim>\<open>y\<close>
  and \<^verbatim>\<open>z\<close> in the source; they carry a prefix here, a record field being a constant.
\<close>

record NormalizedLandmark =
  lm_x :: real
  lm_y :: real
  lm_z :: real

record NormalizedLandmarkList =
  landmark :: "NormalizedLandmark list"

text \<open>
  The value returned by \<^verbatim>\<open>hands.process\<close>. Its field \<^verbatim>\<open>multi_hand_landmarks\<close> is
  \<^verbatim>\<open>None\<close> or a list with one entry per detected hand.
\<close>

record SolutionOutputs =
  multi_hand_landmarks :: "NormalizedLandmarkList list option"

text \<open>The members of \<^verbatim>\<open>mp_hands.HandLandmark\<close> the code uses, with MediaPipe's values.\<close>

definition WRIST :: nat where "WRIST = 0"
definition THUMB_TIP :: nat where "THUMB_TIP = 4"
definition INDEX_FINGER_TIP :: nat where "INDEX_FINGER_TIP = 8"
definition PINKY_TIP :: nat where "PINKY_TIP = 20"

text \<open>
  The collaborators outside the repository. \<open>'s\<close> is the internal state of the global
  \<^verbatim>\<open>hands\<close> object, which \<^verbatim>\<open>hands.process\<close> reads and updates (it is created with
  \<^verbatim>\<open>static_image_mode=False\<close>). \<open>image_open\<close> stands for \<^verbatim>\<open>Image.open\<close> followed by
  \<^verbatim>\<open>np.array\<close>. \<open>send_ok n\<close> tells whether the call number \<open>n\<close> of \<^verbatim>\<open>send_text\<close> on
  the connection succeeds.
\<close>

record 's env =
  b64decode :: "string \<Rightarrow> error + byte list"
  image_open :: "byte list \<Rightarrow> error + ndarray"
  process :: "'s \<Rightarrow> ndarray \<Rightarrow> (error + SolutionOutputs) \<times> 's"
  send_ok :: "nat \<Rightarrow> bool"

section \<open>Library operations the code relies on\<close>

text \<open>Python's \<^verbatim>\<open>xs[i]\<close> for a non-negative index: IndexError out of range.\<close>

definition getitem :: "'a list \<Rightarrow> nat \<Rightarrow> error + 'a" where
  "getitem xs i = (if i < length xs then Inr (xs ! i) else Inl IndexError)"

text \<open>
  Python's \<^verbatim>\<open>data.split(',')\<close>: the segments between all commas, one more than there
  are commas. A comma is one byte in UTF-8 and never part of a longer character, so
  splitting the bytes of the text is splitting the text.
\<close>

fun split_comma :: "string \<Rightarrow> string list" where
  "split_comma [] = [[]]"
| "split_comma (c # cs) =
     (if c = CHR '','' then [] # split_comma cs
      else (case split_comma cs of
              [] \<Rightarrow> [[c]]
            | seg # segs \<Rightarrow> (c # seg) # segs))"

text \<open>
  \<^verbatim>\<open>cv2.cvtColor\<close> with the codes \<^verbatim>\<open>COLOR_BGR2RGB\<close> and \<^verbatim>\<open>COLOR_RGB2BGR\<close> (the same
  conversion in OpenCV). The source must be non-empty. The result has three channels:
  of a source with three or four channels the first and third are swapped and a fourth
  is dropped; of a source with one channel (a greyscale or palette image) the value is
  replicated. Any other number of channels raises.
\<close>

datatype ColorConversionCodes = COLOR_BGR2RGB | COLOR_RGB2BGR

definition swap_rb :: "pixel \<Rightarrow> pixel" where
  "swap_rb p = [p ! 2, p ! 1, p ! 0]"

definition gray_to_bgr :: "pixel \<Rightarrow> pixel" where
  "gray_to_bgr p = [p ! 0, p ! 0, p ! 0]"

definition cvt_channels_ok :: "ndarray \<Rightarrow> bool" where
  "cvt_channels_ok src =
     (list_all (\<lambda>p. length p = 3) (concat src) \<or> list_all (\<lambda>p. length p = 4) (concat src))"

definition cvt_gray :: "ndarray \<Rightarrow> bool" where
  "cvt_gray src = list_all (\<lambda>p. length p = 1) (concat src)"

definition cvtColor :: "ndarray \<Rightarrow> ColorConversionCodes \<Rightarrow> error + ndarray" where
  "cvtColor src code =
     (if concat src = [] then Inl Cv2Error
      else if cvt_gray src then
        (case code of
           COLOR_BGR2RGB \<Rightarrow> Inr (map (map gray_to_bgr) src)
         | COLOR_RGB2BGR \<Rightarrow> Inr (map (map gray_to_bgr) src))
      else if cvt_channels_ok src then
        (case code of
           COLOR_BGR2RGB \<Rightarrow> Inr (map (map swap_rb) src)
         | COLOR_RGB2BGR \<Rightarrow> Inr (map (map swap_rb) src))
      else Inl Cv2Error)"

section \<open>The classifier\<close>

text \<open>
  Lines 37 to 57 of \<^verbatim>\<open>detect_palm\<close>: the decision on the estimator's result.
  \<^verbatim>\<open>if results.multi_hand_landmarks\<close> is false for \<^verbatim>\<open>None\<close> and for the empty list.
  The four landmarks are read before any comparison.
\<close>

definition fingers_extended :: "SolutionOutputs \<Rightarrow> error + bool" where
  "fingers_extended results =
     (case multi_hand_landmarks results of
        None \<Rightarrow> Inr False
      | Some [] \<Rightarrow> Inr False
      | Some (hand_landmarks # _) \<Rightarrow>
          (case getitem (landmark hand_landmarks) THUMB_TIP of
             Inl e \<Rightarrow> Inl e
           | Inr thumb \<Rightarrow>
          (case getitem (landmark hand_landmarks) INDEX_FINGER_TIP of
             Inl e \<Rightarrow> Inl e
           | Inr index \<Rightarrow>
          (case getitem (landmark hand_landmarks) PINKY_TIP of
             Inl e \<Rightarrow> Inl e
           | Inr pinky \<Rightarrow>
          (case getitem (landmark hand_landmarks) WRIST of
             Inl e \<Rightarrow> Inl e
           | Inr wrist \<Rightarrow>
               Inr (lm_y thumb < lm_y wrist \<and>
                    lm_y index < lm_y wrist \<and>
                    lm_y pinky < lm_y wrist))))))"

text \<open>
  \<^verbatim>\<open>detect_palm(image)\<close>: convert, run the estimator on the global \<^verbatim>\<open>hands\<close> object
  (state \<open>s\<close>), classify. The estimator's new state is returned with the result.
\<close>

definition detect_palm :: "'s env \<Rightarrow> 's \<Rightarrow> ndarray \<Rightarrow> (error + bool) \<times> 's" where
  "detect_palm env s image_bgr =
     (case cvtColor image_bgr COLOR_BGR2RGB of
        Inl e \<Rightarrow> (Inl e, s)
      | Inr image_rgb \<Rightarrow>
          (case process env s image_rgb of
             (Inl e, s') \<Rightarrow> (Inl e, s')
           | (Inr results, s') \<Rightarrow> (fingers_extended results, s')))"

section \<open>The session loop\<close>

text \<open>\<^verbatim>\<open>data.split(',')[1]\<close>, the argument of \<^verbatim>\<open>b64decode\<close> on line 70.\<close>

definition frame_payload :: "string \<Rightarrow> error + string" where
  "frame_payload data = getitem (split_comma data) 1"

text \<open>Lines 70 to 74: from the received text to the OpenCV image.\<close>

definition decode_frame :: "'s env \<Rightarrow> string \<Rightarrow> error + ndarray" where
  "decode_frame env data =
     (case frame_payload data of
        Inl e \<Rightarrow> Inl e
      | Inr payload \<Rightarrow>
          (case b64decode env payload of
             Inl e \<Rightarrow> Inl e
           | Inr img_data \<Rightarrow>
               (case image_open env img_data of
                  Inl e \<Rightarrow> Inl e
                | Inr img \<Rightarrow> cvtColor img COLOR_RGB2BGR)))"

text \<open>Lines 70 to 77: the verdict for one frame, or the exception raised on the way.\<close>

definition palm_detected :: "'s env \<Rightarrow> 's \<Rightarrow> string \<Rightarrow> (error + bool) \<times> 's" where
  "palm_detected env s data =
     (case decode_frame env data of
        Inl e \<Rightarrow> (Inl e, s)
      | Inr opencv_img \<Rightarrow> detect_palm env s opencv_img)"

text \<open>
  The connection as the loop sees it: the tokens delivered so far, the number of calls
  of \<^verbatim>\<open>send_text\<close> made, and the state of the shared estimator.
\<close>

record 's session =
  sent :: "string list"
  attempts :: nat
  hands :: 's

definition send_text :: "'s env \<Rightarrow> 's session \<Rightarrow> string \<Rightarrow> (error + unit) \<times> 's session" where
  "send_text env w t =
     (if send_ok env (attempts w)
      then (Inr (), w\<lparr>sent := sent w @ [t], attempts := Suc (attempts w)\<rparr>)
      else (Inl TransportError, w\<lparr>attempts := Suc (attempts w)\<rparr>))"

text \<open>The body of the inner \<^verbatim>\<open>try\<close> (lines 70 to 80).\<close>

definition try_frame :: "'s env \<Rightarrow> 's session \<Rightarrow> string \<Rightarrow> (error + unit) \<times> 's session" where
  "try_frame env w data =
     (case palm_detected env (hands w) data of
        (Inl e, s') \<Rightarrow> (Inl e, w\<lparr>hands := s'\<rparr>)
      | (Inr verdict, s') \<Rightarrow>
          send_text env (w\<lparr>hands := s'\<rparr>) (if verdict then ''start'' else ''wait''))"

text \<open>
  The inner \<^verbatim>\<open>try ... except Exception\<close> (lines 68 to 84). An exception of the body
  is answered with \<^verbatim>\<open>"error"\<close>; an exception of that send leaves the handler.
\<close>

definition handle_frame :: "'s env \<Rightarrow> 's session \<Rightarrow> string \<Rightarrow> (error + unit) \<times> 's session" where
  "handle_frame env w data =
     (case try_frame env w data of
        (Inr u, w') \<Rightarrow> (Inr u, w')
      | (Inl e, w') \<Rightarrow> send_text env w' ''error'')"

text \<open>
  The loop of \<^verbatim>\<open>websocket_endpoint\<close> (lines 63 to 87), entered once the connection
  is accepted, run on the events the peer produces: a text message, or anything that makes \<^verbatim>\<open>receive_text\<close> raise (the peer
  closing, a read failure). The result is \<open>Open\<close> when the loop has answered every event
  and waits in \<^verbatim>\<open>receive_text\<close>, and \<open>Closed\<close> when an exception has reached the
  outer \<^verbatim>\<open>except\<close>, after which no event is read.
\<close>

datatype event = Text string | ReceiveFails

datatype conn = Open | Closed

fun websocket_endpoint :: "'s env \<Rightarrow> event list \<Rightarrow> 's session \<Rightarrow> conn \<times> 's session" where
  "websocket_endpoint env [] w = (Open, w)"
| "websocket_endpoint env (ReceiveFails # evs) w = (Closed, w)"
| "websocket_endpoint env (Text data # evs) w =
     (case handle_frame env w data of
        (Inr u, w') \<Rightarrow> websocket_endpoint env evs w'
      | (Inl e, w') \<Rightarrow> (Closed, w'))"

section \<open>The specification's reading, for comparison\<close>

text \<open>
  The payload as the specification words it: the input is split at its first comma and
  everything after that comma is the payload.
\<close>

definition spec_payload :: "string \<Rightarrow> string" where
  "spec_payload data = tl (dropWhile (\<lambda>c. c \<noteq> CHR '','') data)"

text \<open>The token the specification assigns to the outcome of processing a frame.\<close>

definition response_token :: "error + bool \<Rightarrow> string" where
  "response_token r =
     (case r of
        Inl e \<Rightarrow> ''error''
      | Inr verdict \<Rightarrow> (if verdict then ''start'' else ''wait''))"

section \<open>Concrete collaborators, for evaluating the model\<close>

text \<open>
  A hand of 21 landmarks with the wrist at height 0.8 and every other landmark at
  height \<open>t\<close> (heights grow downwards).
\<close>

definition hand_at :: "real \<Rightarrow> NormalizedLandmarkList" where
  "hand_at t =
     \<lparr>landmark = \<lparr>lm_x = 0.5, lm_y = 0.8, lm_z = 0\<rparr> #
                 replicate 20 \<lparr>lm_x = 0.5, lm_y = t, lm_z = 0\<rparr>\<rparr>"

text \<open>
  A small estimator in video mode. Its state tells whether a hand was found in the
  previous frame. A fresh detection needs a red value of at least 100 in the first
  pixel; a hand found in the previous frame is tracked while that value is at least 50.
\<close>

definition tracking_process ::
  "bool \<Rightarrow> ndarray \<Rightarrow> (error + SolutionOutputs) \<times> bool" where
  "tracking_process tracked img =
     (case img of
        (((r # _) # _) # _) \<Rightarrow>
          (if (if tracked then 50 else 100) \<le> r
           then (Inr \<lparr>multi_hand_landmarks = Some [hand_at 0.2]\<rparr>, True)
           else (Inr \<lparr>multi_hand_landmarks = None\<rparr>, False))
      | _ \<Rightarrow> (Inl EstimatorError, tracked))"


text \<open>
  An estimator that reports two hands in every frame, one raised and one lowered; its
  state tells which of the two it reports first.
\<close>

definition two_hands_process ::
  "bool \<Rightarrow> ndarray \<Rightarrow> (error + SolutionOutputs) \<times> bool" where
  "two_hands_process raised_first img =
     (Inr \<lparr>multi_hand_landmarks =
             Some (if raised_first then [hand_at 0.2, hand_at 0.9]
                   else [hand_at 0.9, hand_at 0.2])\<rparr>,
      raised_first)"


text \<open>
  A stand-in decoder: the payload's character codes are the bytes, and the bytes are
  the channels of a single pixel.
\<close>

definition demo_env ::
  "('s \<Rightarrow> ndarray \<Rightarrow> (error + SolutionOutputs) \<times> 's) \<Rightarrow> (nat \<Rightarrow> bool) \<Rightarrow> 's env" where
  "demo_env est ok =
     \<lparr>b64decode = (\<lambda>payload. Inr (map (\<lambda>c. of_nat (of_char c)) payload)),
      image_open = (\<lambda>img_data. Inr [[img_data]]),
      process = est,
      send_ok = ok\<rparr>"

definition fresh :: "bool session" where
  "fresh = \<lparr>sent = [], attempts = 0, hands = False\<rparr>"

text \<open>Three transports: every write succeeds, only the first fails, every write fails.\<close>

definition reliable :: "nat \<Rightarrow> bool" where
  "reliable n = True"

definition first_write_fails :: "nat \<Rightarrow> bool" where
  "first_write_fails n = (0 < n)"

definition broken :: "nat \<Rightarrow> bool" where
  "broken n = False"

section \<open>Properties of the classifier\<close>

lemma getitem_in_range: "i < length xs \<Longrightarrow> getitem xs i = Inr (xs ! i)"
  by (simp add: getitem_def)

lemma fingers_extended_hand:
  assumes "multi_hand_landmarks r = Some (h # hs)"
    and "PINKY_TIP < length (landmark h)"
  shows "fingers_extended r =
         Inr (lm_y (landmark h ! THUMB_TIP) < lm_y (landmark h ! WRIST) \<and>
              lm_y (landmark h ! INDEX_FINGER_TIP) < lm_y (landmark h ! WRIST) \<and>
              lm_y (landmark h ! PINKY_TIP) < lm_y (landmark h ! WRIST))"
proof -
  from assms(2) have "20 < length (landmark h)"
    by (simp add: PINKY_TIP_def)
  then have "getitem (landmark h) THUMB_TIP = Inr (landmark h ! THUMB_TIP)"
    and "getitem (landmark h) INDEX_FINGER_TIP = Inr (landmark h ! INDEX_FINGER_TIP)"
    and "getitem (landmark h) PINKY_TIP = Inr (landmark h ! PINKY_TIP)"
    and "getitem (landmark h) WRIST = Inr (landmark h ! WRIST)"
    by (auto simp: getitem_def THUMB_TIP_def INDEX_FINGER_TIP_def PINKY_TIP_def WRIST_def)
  with assms(1) show ?thesis
    by (simp add: fingers_extended_def)
qed

lemma fingers_extended_no_hand:
  "multi_hand_landmarks r = None \<or> multi_hand_landmarks r = Some [] \<Longrightarrow>
   fingers_extended r = Inr False"
  by (auto simp: fingers_extended_def)

lemma hand_at_length: "PINKY_TIP < length (landmark (hand_at t))"
  by (simp add: hand_at_def PINKY_TIP_def)

lemma hand_at_nth:
  "landmark (hand_at t) ! WRIST = \<lparr>lm_x = 0.5, lm_y = 0.8, lm_z = 0\<rparr>"
  "landmark (hand_at t) ! THUMB_TIP = \<lparr>lm_x = 0.5, lm_y = t, lm_z = 0\<rparr>"
  "landmark (hand_at t) ! INDEX_FINGER_TIP = \<lparr>lm_x = 0.5, lm_y = t, lm_z = 0\<rparr>"
  "landmark (hand_at t) ! PINKY_TIP = \<lparr>lm_x = 0.5, lm_y = t, lm_z = 0\<rparr>"
  by (simp_all add: hand_at_def WRIST_def THUMB_TIP_def INDEX_FINGER_TIP_def PINKY_TIP_def)

lemma detect_palm_result:
  assumes "cvtColor image_bgr COLOR_BGR2RGB = Inr image_rgb"
    and "process env s image_rgb = (Inr results, s')"
  shows "detect_palm env s image_bgr = (fingers_extended results, s')"
  using assms by (simp add: detect_palm_def)

lemma demo_pixel_rgb:
  "cvtColor [[[r, g, b]]] code = Inr [[[b, g, r]]]"
  by (cases code) (simp_all add: cvtColor_def cvt_channels_ok_def cvt_gray_def swap_rb_def)

text \<open>
  C1: for a frame in which the estimator reports a hand (with the landmarks of
  MediaPipe's schema, so that index 20 exists), the classifier returns true exactly
  when the thumb tip, the index fingertip and the pinky tip each have a smaller y than
  the wrist; a second result whose first hand has the same four y-coordinates gets the
  same verdict, whatever its other coordinates, landmarks and hands are.
\<close>

theorem verdict_from_four_heights:
  assumes "cvtColor image_bgr COLOR_BGR2RGB = Inr image_rgb"
    and "process env s image_rgb = (Inr r, s')"
    and "multi_hand_landmarks r = Some (h # hs)"
    and "PINKY_TIP < length (landmark h)"
  shows "detect_palm env s image_bgr =
           (Inr (lm_y (landmark h ! THUMB_TIP) < lm_y (landmark h ! WRIST) \<and>
                 lm_y (landmark h ! INDEX_FINGER_TIP) < lm_y (landmark h ! WRIST) \<and>
                 lm_y (landmark h ! PINKY_TIP) < lm_y (landmark h ! WRIST)), s') \<and>
         (\<forall>r' h' hs'.
            multi_hand_landmarks r' = Some (h' # hs') \<and>
            PINKY_TIP < length (landmark h') \<and>
            lm_y (landmark h' ! THUMB_TIP) = lm_y (landmark h ! THUMB_TIP) \<and>
            lm_y (landmark h' ! INDEX_FINGER_TIP) = lm_y (landmark h ! INDEX_FINGER_TIP) \<and>
            lm_y (landmark h' ! PINKY_TIP) = lm_y (landmark h ! PINKY_TIP) \<and>
            lm_y (landmark h' ! WRIST) = lm_y (landmark h ! WRIST)
            \<longrightarrow> fingers_extended r' = fingers_extended r)"
proof -
  have "detect_palm env s image_bgr = (fingers_extended r, s')"
    using assms(1,2) by (rule detect_palm_result)
  with assms(3,4) show ?thesis
    by (simp add: fingers_extended_hand)
qed

theorem verdict_from_four_heights_witness:
  "detect_palm (demo_env tracking_process reliable) False [[[122, 122, 122]]] =
     (Inr True, True)"
proof -
  have conv: "cvtColor [[[122, 122, 122]]] COLOR_BGR2RGB = Inr [[[122, 122, 122]]]"
    by (rule demo_pixel_rgb)
  have est: "process (demo_env tracking_process reliable) False [[[122, 122, 122]]] =
             (Inr \<lparr>multi_hand_landmarks = Some [hand_at 0.2]\<rparr>, True)"
    by (simp add: demo_env_def tracking_process_def)
  have hand: "multi_hand_landmarks \<lparr>multi_hand_landmarks = Some [hand_at 0.2]\<rparr> =
              Some (hand_at 0.2 # [])"
    by simp
  show ?thesis
    using verdict_from_four_heights [OF conv est hand hand_at_length]
    by (simp add: hand_at_nth)
qed








lemma send_text_ok:
  "send_ok env (attempts w) \<Longrightarrow>
   send_text env w t = (Inr (), w\<lparr>sent := sent w @ [t], attempts := Suc (attempts w)\<rparr>)"
  by (simp add: send_text_def)

lemma send_text_fails:
  "\<not> send_ok env (attempts w) \<Longrightarrow>
   send_text env w t = (Inl TransportError, w\<lparr>attempts := Suc (attempts w)\<rparr>)"
  by (simp add: send_text_def)



lemma handle_frame_verdict_unsent:
  "palm_detected env (hands w) data = (Inr verdict, s') \<Longrightarrow> \<not> send_ok env (attempts w) \<Longrightarrow>
   handle_frame env w data =
     send_text env (w\<lparr>hands := s', attempts := Suc (attempts w)\<rparr>) ''error''"
  by (simp add: handle_frame_def try_frame_def send_text_def)




section \<open>Properties of the session loop\<close>

lemma split_comma_nonempty: "split_comma d \<noteq> []"
  by (induction d) (auto split: list.splits)

lemma split_comma_no_comma: "CHR '','' \<notin> set d \<Longrightarrow> split_comma d = [d]"
  by (induction d) auto

lemma hd_split_comma: "hd (split_comma d) = takeWhile (\<lambda>c. c \<noteq> CHR '','') d"
  by (induction d) (auto simp: split_comma_nonempty split: list.splits)

lemma second_item: "xs \<noteq> [] \<Longrightarrow> tl xs \<noteq> [] \<Longrightarrow> getitem xs 1 = Inr (hd (tl xs))"
  by (cases xs; cases "tl xs") (auto simp: getitem_def)

lemma tl_split_comma:
  "CHR '','' \<in> set d \<Longrightarrow> tl (split_comma d) = split_comma (spec_payload d)"
  by (induction d) (auto simp: spec_payload_def split: list.splits)

lemma frame_payload_no_comma:
  "CHR '','' \<notin> set d \<Longrightarrow> frame_payload d = Inl IndexError"
  by (simp add: frame_payload_def split_comma_no_comma getitem_def)

lemma frame_payload_comma:
  assumes "CHR '','' \<in> set d"
  shows "frame_payload d = Inr (takeWhile (\<lambda>c. c \<noteq> CHR '','') (spec_payload d))"
proof -
  have rest: "tl (split_comma d) = split_comma (spec_payload d)"
    using assms by (rule tl_split_comma)
  then have "tl (split_comma d) \<noteq> []"
    by (simp add: split_comma_nonempty)
  then have "getitem (split_comma d) 1 = Inr (hd (tl (split_comma d)))"
    using split_comma_nonempty by (rule second_item [rotated])
  then show ?thesis
    by (simp add: frame_payload_def rest hd_split_comma)
qed



lemma handle_frame_sent:
  "set (sent (snd (handle_frame env w data))) \<subseteq> set (sent w) \<union> {''start'', ''wait'', ''error''}"
  by (auto simp: handle_frame_def try_frame_def send_text_def split: prod.splits sum.splits if_splits)

lemma handle_frame_reliable:
  assumes "\<forall>n. send_ok env n"
  shows "handle_frame env w data =
     (Inr (), w\<lparr>hands := snd (palm_detected env (hands w) data),
               sent := sent w @ [response_token (fst (palm_detected env (hands w) data))],
               attempts := Suc (attempts w)\<rparr>)"
  using assms
  by (auto simp: handle_frame_def try_frame_def send_text_def response_token_def split: prod.splits sum.splits)

lemma endpoint_sent:
  "set (sent (snd (websocket_endpoint env evs w))) \<subseteq> set (sent w) \<union> {''start'', ''wait'', ''error''}"
proof (induction env evs w rule: websocket_endpoint.induct)
  case (3 env data evs w)
  obtain r w' where h: "handle_frame env w data = (r, w')" by (cases "handle_frame env w data")
  with handle_frame_sent [of env w data]
  have s: "set (sent w') \<subseteq> set (sent w) \<union> {''start'', ''wait'', ''error''}" by simp
  show ?case
  proof (cases r)
    case (Inl e)
    with h s show ?thesis by simp
  next
    case (Inr u)
    with h "3.IH" [OF h [symmetric] Inr] s show ?thesis by auto
  qed
qed auto

lemma endpoint_count:
  assumes "\<forall>n. send_ok env n"
  shows "length (sent (snd (websocket_endpoint env evs w))) =
         length (sent w) + length (takeWhile (\<lambda>ev. ev \<noteq> ReceiveFails) evs)"
  using assms
  by (induction env evs w rule: websocket_endpoint.induct) (simp_all add: handle_frame_reliable)


lemma palm_detected_no_comma:
  "CHR '','' \<notin> set data \<Longrightarrow> palm_detected env s data = (Inl IndexError, s)"
  by (simp add: palm_detected_def decode_frame_def frame_payload_no_comma)


lemma demo_zzz:
  "palm_detected (demo_env tracking_process ok) tracked ''m,zzz'' = (Inr True, True)"
  by (simp add: palm_detected_def decode_frame_def frame_payload_def getitem_def demo_env_def
      demo_pixel_rgb detect_palm_def tracking_process_def fingers_extended_hand
      hand_at_length hand_at_nth)

lemma demo_PPP:
  "palm_detected (demo_env tracking_process ok) tracked ''m,PPP'' = (Inr tracked, tracked)"
  by (simp add: palm_detected_def decode_frame_def frame_payload_def getitem_def demo_env_def
      demo_pixel_rgb detect_palm_def tracking_process_def fingers_extended_hand
      fingers_extended_no_hand hand_at_length hand_at_nth)


lemma demo_send_ok: "send_ok (demo_env est ok) = ok"
  by (simp add: demo_env_def)






text \<open>
  C10: when the write of the verdict token raises, the handler of the frame catches
  it and attempts to send \<^verbatim>\<open>"error"\<close>; if that second write succeeds the loop goes on
  with the following events, and only if it fails too does the loop end.
\<close>

theorem failed_verdict_write_is_frame_error:
  assumes "palm_detected env (hands w) data = (Inr verdict, s')"
    and "\<not> send_ok env (attempts w)"
  shows "handle_frame env w data =
           send_text env (w\<lparr>hands := s', attempts := Suc (attempts w)\<rparr>) ''error'' \<and>
         (send_ok env (Suc (attempts w)) \<longrightarrow>
            websocket_endpoint env (Text data # evs) w =
              websocket_endpoint env evs
                (w\<lparr>hands := s', sent := sent w @ [''error''],
                   attempts := Suc (Suc (attempts w))\<rparr>)) \<and>
         (\<not> send_ok env (Suc (attempts w)) \<longrightarrow>
            websocket_endpoint env (Text data # evs) w =
              (Closed, w\<lparr>hands := s', attempts := Suc (Suc (attempts w))\<rparr>))"
  using handle_frame_verdict_unsent [OF assms]
  by (simp add: send_text_def)

theorem failed_verdict_write_is_frame_error_witness:
  "websocket_endpoint (demo_env tracking_process first_write_fails)
     [Text ''m,zzz'', Text ''m,PPP''] fresh =
   (Open, \<lparr>sent = [''error'', ''start''], attempts = 3, hands = True\<rparr>) \<and>
   websocket_endpoint (demo_env tracking_process broken)
     [Text ''m,zzz'', Text ''m,PPP''] fresh =
   (Closed, \<lparr>sent = [], attempts = 2, hands = True\<rparr>)"
proof -
  have v1: "palm_detected (demo_env tracking_process first_write_fails) (hands fresh) ''m,zzz'' =
            (Inr True, True)"
    by (rule demo_zzz)
  have f1: "\<not> send_ok (demo_env tracking_process first_write_fails) (attempts fresh)"
    by (simp add: demo_send_ok first_write_fails_def fresh_def)
  have ok: "send_ok (demo_env tracking_process first_write_fails) (Suc (attempts fresh))"
    by (simp add: demo_send_ok first_write_fails_def)
  have "websocket_endpoint (demo_env tracking_process first_write_fails)
          [Text ''m,zzz'', Text ''m,PPP''] fresh =
        websocket_endpoint (demo_env tracking_process first_write_fails) [Text ''m,PPP'']
          (fresh\<lparr>hands := True, sent := sent fresh @ [''error''],
                 attempts := Suc (Suc (attempts fresh))\<rparr>)"
    using failed_verdict_write_is_frame_error [OF v1 f1, of "[Text ''m,PPP'']"] ok
    by blast
  also have "\<dots> = (Open, \<lparr>sent = [''error'', ''start''], attempts = 3, hands = True\<rparr>)"
    by (simp add: fresh_def handle_frame_def try_frame_def send_text_def demo_PPP demo_send_ok
        first_write_fails_def)
  finally have recovered:
    "websocket_endpoint (demo_env tracking_process first_write_fails)
       [Text ''m,zzz'', Text ''m,PPP''] fresh =
     (Open, \<lparr>sent = [''error'', ''start''], attempts = 3, hands = True\<rparr>)" .
  have v2: "palm_detected (demo_env tracking_process broken) (hands fresh) ''m,zzz'' =
            (Inr True, True)"
    by (rule demo_zzz)
  have f2: "\<not> send_ok (demo_env tracking_process broken) n" for n
    by (simp add: demo_send_ok broken_def)
  have "websocket_endpoint (demo_env tracking_process broken)
          [Text ''m,zzz'', Text ''m,PPP''] fresh =
        (Closed, fresh\<lparr>hands := True, attempts := Suc (Suc (attempts fresh))\<rparr>)"
    using failed_verdict_write_is_frame_error [OF v2 f2, of "[Text ''m,PPP'']"] f2
    by blast
  then have dropped:
    "websocket_endpoint (demo_env tracking_process broken)
       [Text ''m,zzz'', Text ''m,PPP''] fresh =
     (Closed, \<lparr>sent = [], attempts = 2, hands = True\<rparr>)"
    by (simp add: fresh_def)
  from recovered dropped show ?thesis ..
qed

lemma handle_frame_at_most_one:
  "length (sent (snd (handle_frame env w data))) \<le> Suc (length (sent w))"
  by (auto simp: handle_frame_def try_frame_def send_text_def split: prod.splits sum.splits)

lemma endpoint_at_most_one:
  "length (sent (snd (websocket_endpoint env evs w))) \<le>
   length (sent w) + length (takeWhile (\<lambda>ev. ev \<noteq> ReceiveFails) evs)"
proof (induction env evs w rule: websocket_endpoint.induct)
  case (3 env data evs w)
  obtain r w' where h: "handle_frame env w data = (r, w')" by (cases "handle_frame env w data")
  with handle_frame_at_most_one [of env w data]
  have one: "length (sent w') \<le> Suc (length (sent w))" by simp
  show ?case
  proof (cases r)
    case (Inl e)
    with h one show ?thesis by simp
  next
    case (Inr u)
    with h "3.IH" [OF h [symmetric] Inr] one show ?thesis by simp
  qed
qed simp_all

lemma demo_000:
  "palm_detected (demo_env tracking_process ok) tracked ''m,000'' = (Inr False, False)"
  by (simp add: palm_detected_def decode_frame_def frame_payload_def getitem_def demo_env_def
      demo_pixel_rgb detect_palm_def tracking_process_def fingers_extended_no_hand)

lemma handle_frame_first_write:
  assumes "send_ok env (attempts w)"
  shows "handle_frame env w data =
     (Inr (), w\<lparr>hands := snd (palm_detected env (hands w) data),
               sent := sent w @ [response_token (fst (palm_detected env (hands w) data))],
               attempts := Suc (attempts w)\<rparr>)"
  using assms
  by (auto simp: handle_frame_def try_frame_def send_text_def response_token_def
      split: prod.splits sum.splits)

lemma handle_frame_second_write:
  assumes "\<not> send_ok env (attempts w)"
    and "fst (palm_detected env (hands w) data) = Inr verdict"
    and "send_ok env (Suc (attempts w))"
  shows "handle_frame env w data =
     (Inr (), w\<lparr>hands := snd (palm_detected env (hands w) data),
               sent := sent w @ [''error''],
               attempts := Suc (Suc (attempts w))\<rparr>)"
  using assms
  by (auto simp: handle_frame_def try_frame_def send_text_def split: prod.splits sum.splits)

lemma handle_frame_no_write:
  assumes "\<not> send_ok env (attempts w)"
    and "fst (palm_detected env (hands w) data) = Inl e \<or> \<not> send_ok env (Suc (attempts w))"
  shows "fst (handle_frame env w data) = Inl TransportError \<and>
         sent (snd (handle_frame env w data)) = sent w"
  using assms
  by (auto simp: handle_frame_def try_frame_def send_text_def split: prod.splits sum.splits)

lemma handle_frame_continues:
  "handle_frame env w data = (Inr u, w') \<Longrightarrow> length (sent w') = Suc (length (sent w))"
  by (auto simp: handle_frame_def try_frame_def send_text_def
      split: prod.splits sum.splits if_splits)

lemma endpoint_open_count:
  "fst (websocket_endpoint env evs w) = Open \<Longrightarrow>
   length (sent (snd (websocket_endpoint env evs w))) = length (sent w) + length evs"
proof (induction env evs w rule: websocket_endpoint.induct)
  case (3 env data evs w)
  obtain r w' where h: "handle_frame env w data = (r, w')" by (cases "handle_frame env w data")
  show ?case
  proof (cases r)
    case (Inl e)
    with h "3.prems" show ?thesis by simp
  next
    case (Inr u)
    with h "3.prems" have "fst (websocket_endpoint env evs w') = Open" by simp
    from "3.IH" [OF h [symmetric] Inr this] handle_frame_continues [of env w data u w'] h Inr
    show ?thesis by simp
  qed
qed simp_all

text \<open>
  C4, as the specification states it, fails when a write fails: a frame with a true
  verdict is answered \<^verbatim>\<open>"error"\<close> when only the write of the verdict fails, and a
  received message gets no token at all when the write of \<^verbatim>\<open>"error"\<close> fails too.
\<close>

theorem verdict_token_lost_when_write_fails:
  "palm_detected (demo_env tracking_process first_write_fails) False ''m,zzz'' =
     (Inr True, True) \<and>
   websocket_endpoint (demo_env tracking_process first_write_fails) [Text ''m,zzz''] fresh =
     (Open, \<lparr>sent = [''error''], attempts = 2, hands = True\<rparr>) \<and>
   websocket_endpoint (demo_env tracking_process broken) [Text ''m,zzz''] fresh =
     (Closed, \<lparr>sent = [], attempts = 2, hands = True\<rparr>)"
  by (simp add: demo_zzz fresh_def handle_frame_def try_frame_def send_text_def demo_send_ok
      first_write_fails_def broken_def)

text \<open>
  C4, amended: a received message gets at most one token, one of \<^verbatim>\<open>"start"\<close>,
  \<^verbatim>\<open>"wait"\<close> and \<^verbatim>\<open>"error"\<close>, and nothing else is ever sent. When the first write
  attempted for the message succeeds, exactly one token is sent: \<^verbatim>\<open>"start"\<close> for a
  true verdict, \<^verbatim>\<open>"wait"\<close> for a false one, \<^verbatim>\<open>"error"\<close> when processing raised. When
  the write of a verdict fails and the following write succeeds, the one token is
  \<^verbatim>\<open>"error"\<close>. Otherwise no token is sent and the loop ends. So as long as the loop
  has not ended, and on every connection whose writes all succeed, the tokens sent are
  as many as the messages received.
\<close>

theorem one_token_per_answered_message:
  "(send_ok env (attempts w) \<longrightarrow>
      handle_frame env w data =
        (Inr (), w\<lparr>hands := snd (palm_detected env (hands w) data),
                  sent := sent w @ [response_token (fst (palm_detected env (hands w) data))],
                  attempts := Suc (attempts w)\<rparr>)) \<and>
   (\<not> send_ok env (attempts w) \<and> fst (palm_detected env (hands w) data) = Inr verdict \<and>
    send_ok env (Suc (attempts w)) \<longrightarrow>
      handle_frame env w data =
        (Inr (), w\<lparr>hands := snd (palm_detected env (hands w) data),
                  sent := sent w @ [''error''],
                  attempts := Suc (Suc (attempts w))\<rparr>)) \<and>
   (\<not> send_ok env (attempts w) \<and>
    (fst (palm_detected env (hands w) data) = Inl e \<or> \<not> send_ok env (Suc (attempts w))) \<longrightarrow>
      fst (handle_frame env w data) = Inl TransportError \<and>
      sent (snd (handle_frame env w data)) = sent w) \<and>
   (fst (websocket_endpoint env evs w) = Open \<longrightarrow>
      length (sent (snd (websocket_endpoint env evs w))) = length (sent w) + length evs) \<and>
   ((\<forall>n. send_ok env n) \<longrightarrow>
      length (sent (snd (websocket_endpoint env evs w))) =
        length (sent w) + length (takeWhile (\<lambda>ev. ev \<noteq> ReceiveFails) evs)) \<and>
   length (sent (snd (websocket_endpoint env evs w))) \<le>
     length (sent w) + length (takeWhile (\<lambda>ev. ev \<noteq> ReceiveFails) evs) \<and>
   set (sent (snd (websocket_endpoint env evs w))) \<subseteq>
     set (sent w) \<union> {''start'', ''wait'', ''error''}"
  using handle_frame_first_write [of env w data]
    handle_frame_second_write [of env w data verdict]
    handle_frame_no_write [of env w data e]
    endpoint_open_count [of env evs w] endpoint_at_most_one [of env evs w]
    endpoint_sent [of env evs w] endpoint_count [of env evs w]
  by blast

theorem one_token_per_answered_message_witness:
  "websocket_endpoint (demo_env tracking_process reliable)
     [Text ''m,zzz'', Text ''m,000'', Text ''m''] fresh =
     (Open, \<lparr>sent = [''start'', ''wait'', ''error''], attempts = 3, hands = False\<rparr>) \<and>
   handle_frame (demo_env tracking_process first_write_fails) fresh ''m,zzz'' =
     (Inr (), \<lparr>sent = [''error''], attempts = 2, hands = True\<rparr>) \<and>
   sent (snd (handle_frame (demo_env tracking_process broken) fresh ''m,zzz'')) = []"
proof -
  let ?good = "demo_env tracking_process reliable"
  have ok: "send_ok ?good n" for n
    by (simp add: demo_send_ok reliable_def)
  have one: "handle_frame ?good fresh ''m,zzz'' =
             (Inr (), \<lparr>sent = [''start''], attempts = 1, hands = True\<rparr>)"
    using one_token_per_answered_message [of ?good fresh "''m,zzz''"] ok
    by (simp add: fresh_def demo_zzz response_token_def)
  have two: "handle_frame ?good \<lparr>sent = [''start''], attempts = 1, hands = True\<rparr> ''m,000'' =
             (Inr (), \<lparr>sent = [''start'', ''wait''], attempts = 2, hands = False\<rparr>)"
    using one_token_per_answered_message
      [of ?good "\<lparr>sent = [''start''], attempts = 1, hands = True\<rparr>" "''m,000''"] ok
    by (simp add: demo_000 response_token_def)
  have three: "handle_frame ?good \<lparr>sent = [''start'', ''wait''], attempts = 2, hands = False\<rparr>
                 ''m'' =
               (Inr (), \<lparr>sent = [''start'', ''wait'', ''error''], attempts = 3, hands = False\<rparr>)"
    using one_token_per_answered_message
      [of ?good "\<lparr>sent = [''start'', ''wait''], attempts = 2, hands = False\<rparr>" "''m''"] ok
    by (simp add: palm_detected_no_comma response_token_def)
  from one two three have run:
    "websocket_endpoint ?good [Text ''m,zzz'', Text ''m,000'', Text ''m''] fresh =
     (Open, \<lparr>sent = [''start'', ''wait'', ''error''], attempts = 3, hands = False\<rparr>)"
    by simp
  have second: "handle_frame (demo_env tracking_process first_write_fails) fresh ''m,zzz'' =
                (Inr (), \<lparr>sent = [''error''], attempts = 2, hands = True\<rparr>)"
    using one_token_per_answered_message
      [of "demo_env tracking_process first_write_fails" fresh "''m,zzz''" True]
    by (simp add: fresh_def demo_zzz demo_send_ok first_write_fails_def)
  have none: "sent (snd (handle_frame (demo_env tracking_process broken) fresh ''m,zzz'')) = []"
    using one_token_per_answered_message
      [of "demo_env tracking_process broken" fresh "''m,zzz''"]
    by (simp add: fresh_def demo_send_ok broken_def)
  have "length (sent (snd (websocket_endpoint ?good
                [Text ''m,zzz'', Text ''m,000'', Text ''m''] fresh))) =
        length (sent fresh) + length [Text ''m,zzz'', Text ''m,000'', Text ''m'']"
    using one_token_per_answered_message
      [where env = ?good and w = fresh and evs = "[Text ''m,zzz'', Text ''m,000'', Text ''m'']"]
      run
    by simp
  with run second none show ?thesis by simp
qed

section \<open>Properties of the frame decoder\<close>

text \<open>
  C3, as the specification states it, fails: on a message with a second comma the
  string handed to \<^verbatim>\<open>b64decode\<close> is the segment between the first two commas, not
  everything after the first comma.
\<close>

theorem payload_not_whole_remainder:
  "frame_payload ''x,QUJD,REVG'' = Inr ''QUJD'' \<and>
   frame_payload ''x,QUJD,REVG'' \<noteq> Inr (spec_payload ''x,QUJD,REVG'')"
  by (simp add: frame_payload_def getitem_def spec_payload_def)

lemma decode_frame_comma:
  "CHR '','' \<in> set d \<Longrightarrow>
   decode_frame env d =
     (case b64decode env (takeWhile (\<lambda>c. c \<noteq> CHR '','') (spec_payload d)) of
        Inl e \<Rightarrow> Inl e
      | Inr img_data \<Rightarrow>
          (case image_open env img_data of
             Inl e \<Rightarrow> Inl e
           | Inr img \<Rightarrow> cvtColor img COLOR_RGB2BGR))"
  by (simp add: decode_frame_def frame_payload_comma)

text \<open>
  C3, amended: for a message with a comma, the payload handed to \<^verbatim>\<open>b64decode\<close> is the
  text after the first comma up to the next comma (all of it when there is no further
  comma); so two messages with the same text after their first comma decode to the
  same raster and are answered alike, whatever precedes that comma.
\<close>

theorem metadata_is_ignored:
  assumes "CHR '','' \<in> set d1" and "CHR '','' \<in> set d2"
    and "spec_payload d1 = spec_payload d2"
  shows "frame_payload d1 = Inr (takeWhile (\<lambda>c. c \<noteq> CHR '','') (spec_payload d1)) \<and>
         (CHR '','' \<notin> set (spec_payload d1) \<longrightarrow> frame_payload d1 = Inr (spec_payload d1)) \<and>
         decode_frame env d1 = decode_frame env d2 \<and>
         handle_frame env w d1 = handle_frame env w d2"
proof -
  have dec: "decode_frame env d1 = decode_frame env d2"
    using assms by (simp add: decode_frame_comma)
  then have "palm_detected env (hands w) d1 = palm_detected env (hands w) d2"
    by (simp add: palm_detected_def)
  then have "handle_frame env w d1 = handle_frame env w d2"
    by (simp add: handle_frame_def try_frame_def)
  moreover have "CHR '','' \<notin> set p \<Longrightarrow> takeWhile (\<lambda>c. c \<noteq> CHR '','') p = p" for p
    by (induction p) auto
  ultimately show ?thesis
    using dec frame_payload_comma [OF assms(1)] by simp
qed

theorem metadata_is_ignored_witness:
  "frame_payload ''data:image/jpeg;base64,QUJD'' = Inr ''QUJD'' \<and>
   handle_frame (demo_env tracking_process reliable) fresh ''data:image/jpeg;base64,QUJD'' =
   handle_frame (demo_env tracking_process reliable) fresh ''m,QUJD''"
proof -
  have c1: "CHR '','' \<in> set ''data:image/jpeg;base64,QUJD''" by simp
  have c2: "CHR '','' \<in> set ''m,QUJD''" by simp
  have same: "spec_payload ''data:image/jpeg;base64,QUJD'' = spec_payload ''m,QUJD''"
    by (simp add: spec_payload_def)
  show ?thesis
    using metadata_is_ignored [OF c1 c2 same, of "demo_env tracking_process reliable" fresh]
    by (simp add: spec_payload_def)
qed

section \<open>History and the estimator\<close>







section \<open>Properties of the channel conversions\<close>

















lemma fingers_extended_short_hand:
  assumes "multi_hand_landmarks r = Some (h # hs)"
    and "\<not> PINKY_TIP < length (landmark h)"
  shows "fingers_extended r = Inl IndexError"
  using assms
  by (auto simp: fingers_extended_def getitem_def PINKY_TIP_def split: sum.splits)

section \<open>The first hand decides\<close>

text \<open>
  C8: when the estimator reports one or more hands for a frame, the result of the
  classifier is the three comparisons on the landmarks of the first reported hand
  (an \<^verbatim>\<open>IndexError\<close> if that hand has fewer than 21 landmarks), and replacing the
  hands after the first, or any other part of the estimator's result, never changes it.
\<close>

theorem first_hand_only:
  assumes "cvtColor image_bgr COLOR_BGR2RGB = Inr image_rgb"
    and "process env s image_rgb = (Inr r, s')"
    and "multi_hand_landmarks r = Some (h # hs)"
  shows "detect_palm env s image_bgr =
           (if PINKY_TIP < length (landmark h)
            then Inr (lm_y (landmark h ! THUMB_TIP) < lm_y (landmark h ! WRIST) \<and>
                      lm_y (landmark h ! INDEX_FINGER_TIP) < lm_y (landmark h ! WRIST) \<and>
                      lm_y (landmark h ! PINKY_TIP) < lm_y (landmark h ! WRIST))
            else Inl IndexError, s') \<and>
         fingers_extended (r'\<lparr>multi_hand_landmarks := Some (h # hs')\<rparr>) = fingers_extended r"
proof -
  have "detect_palm env s image_bgr = (fingers_extended r, s')"
    using assms(1,2) by (rule detect_palm_result)
  moreover have "fingers_extended r =
      (if PINKY_TIP < length (landmark h)
       then Inr (lm_y (landmark h ! THUMB_TIP) < lm_y (landmark h ! WRIST) \<and>
                 lm_y (landmark h ! INDEX_FINGER_TIP) < lm_y (landmark h ! WRIST) \<and>
                 lm_y (landmark h ! PINKY_TIP) < lm_y (landmark h ! WRIST))
       else Inl IndexError)"
    using assms(3) by (simp add: fingers_extended_hand fingers_extended_short_hand)
  moreover have "fingers_extended (r'\<lparr>multi_hand_landmarks := Some (h # hs')\<rparr>) =
                 fingers_extended r"
    using assms(3) by (simp add: fingers_extended_def)
  ultimately show ?thesis
    by simp
qed

theorem first_hand_only_witness:
  "detect_palm (demo_env two_hands_process reliable) True [[[1, 2, 3]]] = (Inr True, True) \<and>
   detect_palm (demo_env two_hands_process reliable) False [[[1, 2, 3]]] = (Inr False, False)"
proof -
  have conv: "cvtColor [[[1, 2, 3]]] COLOR_BGR2RGB = Inr [[[3, 2, 1]]]"
    by (rule demo_pixel_rgb)
  have up: "process (demo_env two_hands_process reliable) True [[[3, 2, 1]]] =
            (Inr \<lparr>multi_hand_landmarks = Some [hand_at 0.2, hand_at 0.9]\<rparr>, True)"
    by (simp add: demo_env_def two_hands_process_def)
  have down: "process (demo_env two_hands_process reliable) False [[[3, 2, 1]]] =
              (Inr \<lparr>multi_hand_landmarks = Some [hand_at 0.9, hand_at 0.2]\<rparr>, False)"
    by (simp add: demo_env_def two_hands_process_def)
  have first_up: "multi_hand_landmarks \<lparr>multi_hand_landmarks = Some [hand_at 0.2, hand_at 0.9]\<rparr> =
                  Some (hand_at 0.2 # [hand_at 0.9])"
    by simp
  have first_down: "multi_hand_landmarks \<lparr>multi_hand_landmarks = Some [hand_at 0.9, hand_at 0.2]\<rparr> =
                    Some (hand_at 0.9 # [hand_at 0.2])"
    by simp
  show ?thesis
    using first_hand_only [OF conv up first_up] first_hand_only [OF conv down first_down]
    by (simp add: hand_at_length hand_at_nth)
qed


end
